theory Spec2Isabelle
  imports Complex_Main "HOL-Library.Sublist" "HOL-Library.Log_Nat"
begin

section \<open>Python values and builtins used by the agents\<close>

text \<open>
  Strings are \<^typ>\<open>string\<close>; a dictionary read with \<^verbatim>\<open>d[k]\<close> is a field of type
  \<open>'a option\<close> whose value \<open>None\<close> stands for the missing key and raises
  \<open>KeyError\<close>; a read with \<^verbatim>\<open>d.get(k, default)\<close> falls back to the default.
  Exceptions are values of \<open>py_error\<close>. Console output (\<^verbatim>\<open>print\<close>) and the
  simulated transaction delay are not modelled.

  Numbers come in two readings. The rules of the reasoning engine, the policy filter and
  the execution compare, add and multiply \<^typ>\<open>real\<close> numbers exactly. The position
  sizer is given in that reading too, as the engine calls it, and once more over doubles;
  the opportunity detector is given over doubles only.
\<close>

datatype py_error = KeyError string | ZeroDivisionError | Exception string

text \<open>\<^verbatim>\<open>d[k]\<close> on a dictionary whose key \<open>k\<close> may be absent.\<close>

definition getitem :: "string \<Rightarrow> 'a option \<Rightarrow> py_error + 'a" where
  "getitem k v = (case v of None \<Rightarrow> Inl (KeyError k) | Some x \<Rightarrow> Inr x)"

text \<open>\<^verbatim>\<open>d.get(k, default)\<close>.\<close>

definition get_default :: "'a option \<Rightarrow> 'a \<Rightarrow> 'a" where
  "get_default v d = (case v of None \<Rightarrow> d | Some x \<Rightarrow> x)"

text \<open>\<^verbatim>\<open>a / b\<close> on floats raises on a zero divisor.\<close>

definition truediv :: "real \<Rightarrow> real \<Rightarrow> py_error + real" where
  "truediv a b = (if b = 0 then Inl ZeroDivisionError else Inr (a / b))"

text \<open>\<^verbatim>\<open>needle in haystack\<close> on strings: contiguous substring.\<close>

fun str_contains :: "string \<Rightarrow> string \<Rightarrow> bool" where
  "str_contains [] needle = (needle = [])"
| "str_contains (c # cs) needle = (prefix needle (c # cs) \<or> str_contains cs needle)"

text \<open>\<^verbatim>\<open>str.lower\<close> and \<^verbatim>\<open>str.upper\<close> on the ASCII letters.\<close>

definition lower_char :: "char \<Rightarrow> char" where
  "lower_char c =
     (case map_of (zip ''ABCDEFGHIJKLMNOPQRSTUVWXYZ'' ''abcdefghijklmnopqrstuvwxyz'') c of
        None \<Rightarrow> c
      | Some l \<Rightarrow> l)"

definition upper_char :: "char \<Rightarrow> char" where
  "upper_char c =
     (case map_of (zip ''abcdefghijklmnopqrstuvwxyz'' ''ABCDEFGHIJKLMNOPQRSTUVWXYZ'') c of
        None \<Rightarrow> c
      | Some u \<Rightarrow> u)"

definition lower :: "string \<Rightarrow> string" where
  "lower s = map lower_char s"

definition upper :: "string \<Rightarrow> string" where
  "upper s = map upper_char s"

text \<open>Decimal digits of a natural number, as \<^verbatim>\<open>str\<close> prints them.\<close>

definition digit_char :: "nat \<Rightarrow> char" where
  "digit_char d = ''0123456789'' ! d"

fun str_nat :: "nat \<Rightarrow> string" where
  "str_nat n =
     (if n < 10 then [digit_char n]
      else str_nat (n div 10) @ [digit_char (n mod 10)])"

declare str_nat.simps [simp del]


text \<open>Rounding to the nearest integer, ties to the even neighbour.\<close>

definition round_half_even :: "real \<Rightarrow> int" where
  "round_half_even y =
     (let f = \<lfloor>y\<rfloor>; d = y - of_int f
      in if d < 1 / 2 then f
         else if 1 / 2 < d then f + 1
         else if even f then f else f + 1)"

text \<open>The format specification \<^verbatim>\<open>:.1f\<close> of an f-string.\<close>

definition fmt_1f :: "real \<Rightarrow> string" where
  "fmt_1f x =
     (let n = nat (round_half_even (\<bar>x\<bar> * 10))
      in (if x < 0 then ''-'' else '''') @ str_nat (n div 10) @ ''.'' @ str_nat (n mod 10))"







section \<open>Double-precision floats\<close>

text \<open>
  Where a property depends on rounding, on the infinities or on NaN, the functions are
  given over IEEE 754 doubles. A float is a finite double, an infinity or NaN; the two
  zeros are not told apart, which no comparison of the source does either. Every operation
  on finite operands is the exact result rounded to the nearest double, ties to even, and
  becomes an infinity when the rounded value leaves the range of the doubles.
\<close>

datatype pyfloat = Fin real | PInf | NInf | NaN

definition pow2 :: "int \<Rightarrow> real" where
  "pow2 e = (if 0 \<le> e then 2 ^ nat e else 1 / 2 ^ nat (- e))"

text \<open>The binary exponent of a number other than 0: \<open>pow2 e \<le> \<bar>x\<bar> < pow2 (e + 1)\<close>.\<close>

definition exponent :: "real \<Rightarrow> int" where
  "exponent x =
     (if 1 \<le> \<bar>x\<bar> then bitlen \<lfloor>\<bar>x\<bar>\<rfloor> - 1 else - bitlen (\<lceil>1 / \<bar>x\<bar>\<rceil> - 1))"

text \<open>
  Rounding to 53 significant bits; below the smallest normal exponent \<open>- 1022\<close> the
  spacing of the doubles stays that of the subnormal numbers.
\<close>

definition round_double :: "real \<Rightarrow> real" where
  "round_double x =
     (if x = 0 then 0
      else (let g = pow2 (max (exponent x) (- 1022) - 52)
            in of_int (round_half_even (x / g)) * g))"

text \<open>The double of an exact result; also the value of a decimal literal of the source.\<close>

definition fl :: "real \<Rightarrow> pyfloat" where
  "fl x =
     (let r = round_double x
      in if pow2 1024 \<le> r then PInf else if r \<le> - pow2 1024 then NInf else Fin r)"

text \<open>\<^verbatim>\<open>math.isfinite\<close>: a double that is neither an infinity nor NaN.\<close>

definition is_finite :: "pyfloat \<Rightarrow> bool" where
  "is_finite x = (case x of Fin a \<Rightarrow> \<bar>a\<bar> < pow2 1024 | _ \<Rightarrow> False)"

fun fadd :: "pyfloat \<Rightarrow> pyfloat \<Rightarrow> pyfloat" where
  "fadd NaN y = NaN"
| "fadd x NaN = NaN"
| "fadd PInf NInf = NaN"
| "fadd NInf PInf = NaN"
| "fadd PInf y = PInf"
| "fadd x PInf = PInf"
| "fadd NInf y = NInf"
| "fadd x NInf = NInf"
| "fadd (Fin a) (Fin b) = fl (a + b)"

fun fsub :: "pyfloat \<Rightarrow> pyfloat \<Rightarrow> pyfloat" where
  "fsub NaN y = NaN"
| "fsub x NaN = NaN"
| "fsub PInf PInf = NaN"
| "fsub NInf NInf = NaN"
| "fsub PInf y = PInf"
| "fsub x NInf = PInf"
| "fsub NInf y = NInf"
| "fsub x PInf = NInf"
| "fsub (Fin a) (Fin b) = fl (a - b)"

text \<open>
  An infinity times a finite number: NaN for 0, else the infinity with the sign of the
  product.
\<close>

definition inf_signed :: "pyfloat \<Rightarrow> real \<Rightarrow> pyfloat" where
  "inf_signed i a =
     (if a = 0 then NaN
      else if 0 < a then i
      else (if i = PInf then NInf else PInf))"

fun fmul :: "pyfloat \<Rightarrow> pyfloat \<Rightarrow> pyfloat" where
  "fmul NaN y = NaN"
| "fmul x NaN = NaN"
| "fmul PInf PInf = PInf"
| "fmul PInf NInf = NInf"
| "fmul NInf PInf = NInf"
| "fmul NInf NInf = PInf"
| "fmul PInf (Fin b) = inf_signed PInf b"
| "fmul NInf (Fin b) = inf_signed NInf b"
| "fmul (Fin a) PInf = inf_signed PInf a"
| "fmul (Fin a) NInf = inf_signed NInf a"
| "fmul (Fin a) (Fin b) = fl (a * b)"

text \<open>
  The quotient by a divisor other than 0; the source's \<^verbatim>\<open>/\<close> tests the divisor first
  (\<open>truediv_fl\<close> below), and the other uses divide by the literal 100.
\<close>

fun fdiv :: "pyfloat \<Rightarrow> pyfloat \<Rightarrow> pyfloat" where
  "fdiv NaN y = NaN"
| "fdiv x NaN = NaN"
| "fdiv PInf (Fin b) = (if 0 \<le> b then PInf else NInf)"
| "fdiv NInf (Fin b) = (if 0 \<le> b then NInf else PInf)"
| "fdiv PInf y = NaN"
| "fdiv NInf y = NaN"
| "fdiv (Fin a) (Fin b) = fl (a / b)"
| "fdiv (Fin a) y = Fin 0"

text \<open>\<^verbatim>\<open>a / b\<close> on floats: a zero divisor raises, whatever the dividend.\<close>

definition truediv_fl :: "pyfloat \<Rightarrow> pyfloat \<Rightarrow> py_error + pyfloat" where
  "truediv_fl x y = (if y = Fin 0 then Inl ZeroDivisionError else Inr (fdiv x y))"

text \<open>\<^verbatim>\<open>x < y\<close> and \<^verbatim>\<open>x <= y\<close>: false as soon as an operand is NaN.\<close>

fun flt :: "pyfloat \<Rightarrow> pyfloat \<Rightarrow> bool" where
  "flt NaN y = False"
| "flt x NaN = False"
| "flt PInf y = False"
| "flt x NInf = False"
| "flt NInf y = True"
| "flt x PInf = True"
| "flt (Fin a) (Fin b) = (a < b)"

fun fle :: "pyfloat \<Rightarrow> pyfloat \<Rightarrow> bool" where
  "fle NaN y = False"
| "fle x NaN = False"
| "fle NInf y = True"
| "fle x PInf = True"
| "fle PInf y = False"
| "fle x NInf = False"
| "fle (Fin a) (Fin b) = (a \<le> b)"

text \<open>
  The builtins \<^verbatim>\<open>max(x, y)\<close> and \<^verbatim>\<open>min(x, y)\<close> keep their first argument unless the
  second is strictly greater, respectively smaller; a NaN first argument is therefore
  kept.
\<close>

definition py_max :: "pyfloat \<Rightarrow> pyfloat \<Rightarrow> pyfloat" where
  "py_max x y = (if flt x y then y else x)"

definition py_min :: "pyfloat \<Rightarrow> pyfloat \<Rightarrow> pyfloat" where
  "py_min x y = (if flt y x then y else x)"

section \<open>Analyzer agent: the reasoning engine\<close>

record OpportunityAnalysis =
  oa_market :: string
  oa_profit_margin :: real
  oa_confidence :: real
  oa_risk_score :: real
  oa_recommendation :: string
  oa_bet_size :: real
  oa_reasoning :: "string list"

record market_patterns =
  crypto_volatility :: real
  prediction_market_accuracy :: real
  volume_confidence_threshold :: real

record risk_parameters =
  max_profit_margin :: real
  min_confidence :: real
  max_risk_score :: real

record hist_perf =
  accuracy :: real
  avg_margin :: real

text \<open>
  \<^verbatim>\<open>self.knowledge_base\<close>. The table \<^verbatim>\<open>historical_performance\<close> is read with a
  computed key, so it is kept as an association list from keys to entries.
\<close>

record knowledge_base =
  kb_market_patterns :: market_patterns
  kb_risk_parameters :: risk_parameters
  kb_historical_performance :: "(string \<times> hist_perf) list"

text \<open>The knowledge base built by \<^verbatim>\<open>MeTTaReasoning.__init__\<close>.\<close>

definition init_knowledge_base :: knowledge_base where
  "init_knowledge_base =
     \<lparr> kb_market_patterns =
         \<lparr> crypto_volatility = 0.8,
           prediction_market_accuracy = 0.7,
           volume_confidence_threshold = 100000 \<rparr>,
       kb_risk_parameters =
         \<lparr> max_profit_margin = 15.0,
           min_confidence = 60.0,
           max_risk_score = 70.0 \<rparr>,
       kb_historical_performance =
         [ (''btc_predictions'', \<lparr> accuracy = 0.72, avg_margin = 4.2 \<rparr>),
           (''eth_predictions'', \<lparr> accuracy = 0.68, avg_margin = 3.8 \<rparr>) ] \<rparr>"

text \<open>The opportunity dictionary handed to \<^verbatim>\<open>analyze_opportunity\<close>.\<close>

record opportunity =
  opp_market :: "string option"
  opp_profit_margin :: "real option"
  opp_confidence :: "real option"

definition generate_recommendation :: "knowledge_base \<Rightarrow> real \<Rightarrow> real \<Rightarrow> real \<Rightarrow> string" where
  "generate_recommendation kb profit_margin confidence risk_score =
     (if profit_margin > 5.0 \<and> confidence > 70.0
         \<and> risk_score < max_risk_score (kb_risk_parameters kb)
      then ''EXECUTE''
      else if profit_margin > 3.0 \<and> confidence > 60.0 \<and> risk_score < 80.0
      then ''MONITOR''
      else ''SKIP'')"

definition calculate_kelly_bet_size :: "real \<Rightarrow> real \<Rightarrow> real \<Rightarrow> py_error + real" where
  "calculate_kelly_bet_size profit_margin confidence risk_score =
     (let win_probability = confidence / 100.0;
          odds = 1 + (profit_margin / 100.0);
          b = odds - 1;
          p = win_probability;
          q = 1 - p
      in if b \<le> 0 \<or> p \<le> 0 then Inr 0.0
         else case truediv (b * p - q) b of
                Inl e \<Rightarrow> Inl e
              | Inr kelly_fraction \<Rightarrow>
                  (let risk_adjustment = max 0.1 (1.0 - (risk_score / 100.0));
                       adjusted_fraction = kelly_fraction * risk_adjustment
                   in Inr (min (max adjusted_fraction 0.0) 0.10)))"

text \<open>
  \<^verbatim>\<open>_calculate_kelly_bet_size\<close> once more, over doubles. The local variables \<open>b\<close> and
  \<open>p\<close> of the source, which its guard tests, are functions of their own.
\<close>

definition kelly_b :: "pyfloat \<Rightarrow> pyfloat" where
  "kelly_b profit_margin = fsub (fadd (Fin 1) (fdiv profit_margin (Fin 100.0))) (Fin 1)"

definition kelly_p :: "pyfloat \<Rightarrow> pyfloat" where
  "kelly_p confidence = fdiv confidence (Fin 100.0)"

definition calculate_kelly_bet_size_fl :: "pyfloat \<Rightarrow> pyfloat \<Rightarrow> pyfloat \<Rightarrow> py_error + pyfloat" where
  "calculate_kelly_bet_size_fl profit_margin confidence risk_score =
     (let b = kelly_b profit_margin;
          p = kelly_p confidence;
          q = fsub (Fin 1) p
      in if fle b (Fin 0) \<or> fle p (Fin 0) then Inr (Fin 0.0)
         else case truediv_fl (fsub (fmul b p) q) b of
                Inl e \<Rightarrow> Inl e
              | Inr kelly_fraction \<Rightarrow>
                  (let risk_adjustment =
                         py_max (fl 0.1) (fsub (Fin 1.0) (fdiv risk_score (Fin 100.0)));
                       adjusted_fraction = fmul kelly_fraction risk_adjustment
                   in Inr (py_min (py_max adjusted_fraction (Fin 0.0)) (fl 0.10))))"

text \<open>
  The rules of \<^verbatim>\<open>analyze_opportunity\<close> update the pair of the running risk score and the
  reasoning list; each rule below is one commented block of the method, in its order.
\<close>

type_synonym rule_state = "real \<times> string list"

definition rule1_profit_margin :: "knowledge_base \<Rightarrow> real \<Rightarrow> rule_state \<Rightarrow> rule_state" where
  "rule1_profit_margin kb profit_margin st =
     (case st of (risk_score, reasoning) \<Rightarrow>
        if profit_margin > max_profit_margin (kb_risk_parameters kb)
        then (risk_score + 30,
              reasoning @ [''High profit margin ('' @ fmt_1f profit_margin
                             @ ''%) may indicate pricing error''])
        else if profit_margin > 8.0
        then (risk_score + 10,
              reasoning @ [''Strong profit margin ('' @ fmt_1f profit_margin @ ''%) detected''])
        else (risk_score,
              reasoning @ [''Moderate profit margin ('' @ fmt_1f profit_margin @ ''%)'']))"

definition rule2_confidence :: "knowledge_base \<Rightarrow> real \<Rightarrow> rule_state \<Rightarrow> rule_state" where
  "rule2_confidence kb confidence st =
     (case st of (risk_score, reasoning) \<Rightarrow>
        if confidence < min_confidence (kb_risk_parameters kb)
        then (risk_score + 25,
              reasoning @ [''Low confidence ('' @ fmt_1f confidence @ ''%) in opportunity''])
        else if confidence > 85
        then (risk_score - 10,
              reasoning @ [''High confidence ('' @ fmt_1f confidence @ ''%) in opportunity''])
        else (risk_score, reasoning))"

definition asset_type_of :: "string \<Rightarrow> string" where
  "asset_type_of market =
     (if str_contains (lower market) ''bitcoin'' \<or> str_contains (lower market) ''btc''
      then ''btc'' else ''eth'')"

definition rule3_asset_history ::
  "knowledge_base \<Rightarrow> string \<Rightarrow> rule_state \<Rightarrow> py_error + rule_state" where
  "rule3_asset_history kb market st =
     (case st of (risk_score, reasoning) \<Rightarrow>
        let asset_type = asset_type_of market
        in if map_of (kb_historical_performance kb) asset_type \<noteq> None
           then (case getitem (asset_type @ ''_predictions'')
                        (map_of (kb_historical_performance kb) (asset_type @ ''_predictions'')) of
                   Inl e \<Rightarrow> Inl e
                 | Inr hp \<Rightarrow>
                     if accuracy hp > 0.7
                     then Inr (risk_score - 5,
                               reasoning @ [''Strong historical accuracy for '' @ upper asset_type
                                              @ '' predictions''])
                     else Inr (risk_score + 10,
                               reasoning @ [''Moderate historical accuracy for '' @ upper asset_type
                                              @ '' predictions'']))
           else Inr (risk_score, reasoning))"

definition rule4_volatility :: "knowledge_base \<Rightarrow> rule_state \<Rightarrow> rule_state" where
  "rule4_volatility kb st =
     (case st of (risk_score, reasoning) \<Rightarrow>
        if crypto_volatility (kb_market_patterns kb) > 0.7
        then (risk_score + 15, reasoning @ [''High crypto market volatility increases risk''])
        else (risk_score, reasoning))"

text \<open>Rules 1 to 4 in sequence, from the initial state \<open>(0.0, [])\<close>.\<close>

definition risk_rules ::
  "knowledge_base \<Rightarrow> string \<Rightarrow> real \<Rightarrow> real \<Rightarrow> py_error + rule_state" where
  "risk_rules kb market profit_margin confidence =
     (case rule3_asset_history kb market
             (rule2_confidence kb confidence
                (rule1_profit_margin kb profit_margin (0.0, []))) of
        Inl e \<Rightarrow> Inl e
      | Inr st \<Rightarrow> Inr (rule4_volatility kb st))"

definition analyze_opportunity :: "knowledge_base \<Rightarrow> opportunity \<Rightarrow> py_error + OpportunityAnalysis" where
  "analyze_opportunity kb opp =
     (case getitem ''market'' (opp_market opp) of Inl e \<Rightarrow> Inl e | Inr market \<Rightarrow>
     (case getitem ''profit_margin'' (opp_profit_margin opp) of Inl e \<Rightarrow> Inl e | Inr profit_margin \<Rightarrow>
     (case getitem ''confidence'' (opp_confidence opp) of Inl e \<Rightarrow> Inl e | Inr confidence \<Rightarrow>
     (case risk_rules kb market profit_margin confidence of Inl e \<Rightarrow> Inl e
      | Inr (risk_score, reasoning4) \<Rightarrow>
          (let recommendation = generate_recommendation kb profit_margin confidence risk_score;
               reasoning = reasoning4 @ [''Recommendation: '' @ recommendation]
           in (case calculate_kelly_bet_size profit_margin confidence risk_score of
                 Inl e \<Rightarrow> Inl e
               | Inr bet_size \<Rightarrow>
                   Inr \<lparr> oa_market = market,
                         oa_profit_margin = profit_margin,
                         oa_confidence = confidence,
                         oa_risk_score = risk_score,
                         oa_recommendation = recommendation,
                         oa_bet_size = bet_size,
                         oa_reasoning = reasoning \<rparr>))))))"

section \<open>Executor agent: policy filter and trade execution\<close>

text \<open>
  The recommendation dictionary; its keys \<^verbatim>\<open>action\<close> and \<^verbatim>\<open>reasoning\<close> are never
  read by \<^verbatim>\<open>VincentIntegration\<close>.
\<close>

record recommendation =
  rec_market :: "string option"
  rec_bet_size :: "real option"
  rec_profit_margin :: "real option"
  rec_confidence :: "real option"
  rec_risk_score :: "real option"

text \<open>
  The user policy dictionary; its key \<^verbatim>\<open>is_active\<close> is read by the caller of
  \<^verbatim>\<open>execute_trade\<close> only.
\<close>

record user_policy =
  user_address :: "string option"
  bankroll :: "real option"
  max_bet_size :: "real option"
  min_bet_size :: "real option"
  pol_min_profit_margin :: "real option"
  pol_min_confidence :: "real option"
  pol_max_risk_score :: "real option"
  approved_markets :: "string list option"


definition check_policy_compliance :: "recommendation \<Rightarrow> user_policy \<Rightarrow> py_error + bool" where
  "check_policy_compliance r p =
     (case getitem ''profit_margin'' (rec_profit_margin r) of Inl e \<Rightarrow> Inl e | Inr profit_margin \<Rightarrow>
        if profit_margin < get_default (pol_min_profit_margin p) 3.0 then Inr False
        else
     (case getitem ''confidence'' (rec_confidence r) of Inl e \<Rightarrow> Inl e | Inr confidence \<Rightarrow>
        if confidence < get_default (pol_min_confidence p) 60.0 then Inr False
        else
     (case getitem ''risk_score'' (rec_risk_score r) of Inl e \<Rightarrow> Inl e | Inr risk_score \<Rightarrow>
        if risk_score > get_default (pol_max_risk_score p) 70.0 then Inr False
        else
          (let approved = get_default (approved_markets p) []
           in if approved = [] then Inr True
              else (case getitem ''market'' (rec_market r) of Inl e \<Rightarrow> Inl e | Inr market \<Rightarrow>
                      if \<not> list_ex (\<lambda>m. str_contains market m) approved then Inr False
                      else Inr True)))))"


definition encode_polymarket_bet :: "recommendation \<Rightarrow> real \<Rightarrow> string" where
  "encode_polymarket_bet r bet_size = ''0x1234567890abcdef''"







text \<open>The recommendation and the policy of \<^verbatim>\<open>demonstrate_vincent_execution\<close>.\<close>

definition demo_recommendation :: recommendation where
  "demo_recommendation =
     \<lparr> rec_market = Some ''Will Bitcoin reach $100,000 by December 31, 2024?'',
       rec_bet_size = Some 0.15,
       rec_profit_margin = Some 6.2,
       rec_confidence = Some 85.0,
       rec_risk_score = Some 45.0 \<rparr>"

definition demo_user_policy :: user_policy where
  "demo_user_policy =
     \<lparr> user_address = Some ''0x742d35Cc6634C0532925a3b8D2C042bd8c82af'',
       bankroll = Some 1000.0,
       max_bet_size = Some 200.0,
       min_bet_size = Some 10.0,
       pol_min_profit_margin = Some 4.0,
       pol_min_confidence = Some 70.0,
       pol_max_risk_score = Some 65.0,
       approved_markets = Some [''Bitcoin'', ''Ethereum''] \<rparr>"


section \<open>Scanner agent: the opportunity detector\<close>

text \<open>
  A market dictionary as \<^verbatim>\<open>fetch_polymarket_data\<close> returns it; its keys
  \<^verbatim>\<open>id\<close> and \<^verbatim>\<open>outcome\<close> are read for console output at most. The detector
  computes over doubles; the integers of the mock data are doubles exactly.
\<close>

record market_data =
  mkt_question :: "string option"
  mkt_odds :: "pyfloat option"
  mkt_volume :: "pyfloat option"
  mkt_target_price :: "pyfloat option"
  mkt_asset :: "string option"

text \<open>An entry of the price dictionary; its key \<^verbatim>\<open>publish_time\<close> is never read.\<close>

record price_data =
  pd_price :: "pyfloat option"
  pd_confidence :: "pyfloat option"

record OpportunityData =
  od_market :: string
  od_market_odds :: pyfloat
  od_oracle_price :: pyfloat
  od_implied_price :: pyfloat
  od_profit_margin :: pyfloat
  od_confidence :: pyfloat
  od_detected_at :: real

definition calculate_confidence :: "market_data \<Rightarrow> price_data \<Rightarrow> pyfloat \<Rightarrow> py_error + pyfloat" where
  "calculate_confidence market pd profit_margin =
     (let base = Fin 50.0;
          volume = get_default (mkt_volume market) (Fin 0);
          with_volume =
            (if flt (Fin 1000000) volume then fadd base (Fin 20)
             else if flt (Fin 100000) volume then fadd base (Fin 10)
             else base);
          with_margin =
            (if flt (Fin 10) profit_margin then fadd with_volume (Fin 30)
             else if flt (Fin 5) profit_margin then fadd with_volume (Fin 20)
             else if flt (Fin 3) profit_margin then fadd with_volume (Fin 10)
             else with_volume)
      in (case getitem ''confidence'' (pd_confidence pd) of Inl e \<Rightarrow> Inl e | Inr conf \<Rightarrow>
         (case getitem ''price'' (pd_price pd) of Inl e \<Rightarrow> Inl e | Inr price \<Rightarrow>
         (case truediv_fl conf price of Inl e \<Rightarrow> Inl e | Inr price_conf_ratio \<Rightarrow>
            (let confidence =
                   (if flt price_conf_ratio (fl 0.001) then fadd with_margin (Fin 15)
                    else if flt price_conf_ratio (fl 0.01) then fadd with_margin (Fin 10)
                    else if flt (fl 0.05) price_conf_ratio then fsub with_margin (Fin 10)
                    else with_margin)
             in Inr (py_min (py_max confidence (Fin 0)) (Fin 100)))))))"

text \<open>The \<^verbatim>\<open>try\<close> block of \<^verbatim>\<open>analyze_market\<close>; \<open>now\<close> is the reading of the clock.\<close>

definition analyze_market_try ::
  "market_data \<Rightarrow> (string \<rightharpoonup> price_data) \<Rightarrow> real \<Rightarrow> py_error + OpportunityData option" where
  "analyze_market_try market prices now =
     (case mkt_asset market of None \<Rightarrow> Inr None | Some asset \<Rightarrow>
     (case prices asset of None \<Rightarrow> Inr None | Some pd \<Rightarrow>
     (case getitem ''price'' (pd_price pd) of Inl e \<Rightarrow> Inl e | Inr oracle_price \<Rightarrow>
     (case getitem ''odds'' (mkt_odds market) of Inl e \<Rightarrow> Inl e | Inr market_odds \<Rightarrow>
     (case getitem ''target_price'' (mkt_target_price market) of Inl e \<Rightarrow> Inl e | Inr target_price \<Rightarrow>
        (let implied_probability = fdiv market_odds (Fin 100);
             time_factor = fl 0.9;
             implied_price =
               fmul target_price (fsub (Fin 1) (fmul implied_probability time_factor))
         in (case truediv_fl (fsub oracle_price implied_price) implied_price of Inl e \<Rightarrow> Inl e
             | Inr relative \<Rightarrow>
            (let profit_margin = fmul relative (Fin 100)
             in (case calculate_confidence market pd profit_margin of Inl e \<Rightarrow> Inl e
                 | Inr confidence \<Rightarrow>
                (case getitem ''question'' (mkt_question market) of Inl e \<Rightarrow> Inl e
                 | Inr question \<Rightarrow>
                     Inr (Some \<lparr> od_market = question,
                                 od_market_odds = market_odds,
                                 od_oracle_price = oracle_price,
                                 od_implied_price = implied_price,
                                 od_profit_margin = profit_margin,
                                 od_confidence = confidence,
                                 od_detected_at = now \<rparr>)))))))))))"

text \<open>\<^verbatim>\<open>analyze_market\<close>: every exception of the block gives \<^verbatim>\<open>None\<close>.\<close>

definition analyze_market ::
  "market_data \<Rightarrow> (string \<rightharpoonup> price_data) \<Rightarrow> real \<Rightarrow> OpportunityData option" where
  "analyze_market market prices now =
     (case analyze_market_try market prices now of Inl e \<Rightarrow> None | Inr result \<Rightarrow> result)"

text \<open>
  The first mock market of \<^verbatim>\<open>fetch_polymarket_data\<close>, and a price dictionary that
  quotes its asset at 98500.
\<close>

definition btc_mock_market :: market_data where
  "btc_mock_market =
     \<lparr> mkt_question = Some ''Will Bitcoin reach $100,000 by December 31, 2024?'',
       mkt_odds = Some (Fin 75.0),
       mkt_volume = Some (Fin 1250000),
       mkt_target_price = Some (Fin 100000),
       mkt_asset = Some ''BTC'' \<rparr>"

definition btc_prices :: "string \<rightharpoonup> price_data" where
  "btc_prices = [''BTC'' \<mapsto> \<lparr> pd_price = Some (Fin 98500), pd_confidence = Some (Fin 50) \<rparr>]"

text \<open>
  The sample opportunity of \<^verbatim>\<open>demonstrate_metta_reasoning\<close>; its keys
  \<^verbatim>\<open>oracle_price\<close> and \<^verbatim>\<open>implied_price\<close> are never read by the engine.
\<close>

definition demo_market :: string where
  "demo_market = ''Will Bitcoin reach $100,000 by December 31, 2024?''"

definition demo_opportunity :: opportunity where
  "demo_opportunity =
     \<lparr> opp_market = Some demo_market,
       opp_profit_margin = Some 6.2,
       opp_confidence = Some 85.0 \<rparr>"


section \<open>Properties of the doubles\<close>

lemmas flsimps =
  round_double_def exponent_def pow2_def round_half_even_def compute_bitlen fl_def Let_def

lemma pow2_powi: "pow2 e = 2 powi e"
  by (simp add: pow2_def power_int_def inverse_eq_divide power_one_over)

lemma pow2_pos: "0 < pow2 e"
  by (simp add: pow2_powi)

lemma pow2_add: "pow2 (a + b) = pow2 a * pow2 b"
  by (simp add: pow2_powi power_int_add)

lemma pow2_mono: "a \<le> b \<Longrightarrow> pow2 a \<le> pow2 b"
  by (simp add: pow2_powi power_int_increasing)

lemma pow2_ge_1: "0 \<le> e \<Longrightarrow> 1 \<le> pow2 e"
  using pow2_mono [of 0 e] by (simp add: pow2_def)

lemma pow2_Suc: "pow2 (e + 1) = 2 * pow2 e"
proof -
  have "pow2 1 = 2" by (simp add: pow2_def)
  then show ?thesis using pow2_add [of e 1] by simp
qed

lemma round_half_even_error: "\<bar>of_int (round_half_even y) - y\<bar> \<le> 1 / 2"
  unfolding round_half_even_def Let_def by (auto simp: abs_if) linarith+

lemma round_half_even_nonneg: "0 \<le> y \<Longrightarrow> 0 \<le> round_half_even y"
  unfolding round_half_even_def Let_def by (auto simp: le_floor_iff) 

lemma round_half_even_nonpos: "y \<le> 0 \<Longrightarrow> round_half_even y \<le> 0"
  unfolding round_half_even_def Let_def
  by (auto simp: floor_le_iff)

lemma round_half_even_le_int: "y \<le> of_int n \<Longrightarrow> round_half_even y \<le> n"
  unfolding round_half_even_def Let_def
  by (auto simp: floor_le_iff)

lemma exponent_le: "x \<noteq> 0 \<Longrightarrow> pow2 (exponent x) \<le> \<bar>x\<bar>"
proof (cases "1 \<le> \<bar>x\<bar>")
  case True
  let ?m = "\<lfloor>\<bar>x\<bar>\<rfloor>"
  from True have m: "0 < ?m" by simp
  from bitlen_bounds [OF m] have "2 ^ nat (bitlen ?m - 1) \<le> ?m" by simp
  then have "(2::real) ^ nat (bitlen ?m - 1) \<le> of_int ?m"
    by (metis of_int_le_iff of_int_numeral of_int_power)
  also have "\<dots> \<le> \<bar>x\<bar>" by simp
  finally have le: "(2::real) ^ nat (bitlen ?m - 1) \<le> \<bar>x\<bar>" .
  have "1 \<le> bitlen ?m" using m by (simp add: bitlen_alt_def)
  then show ?thesis using True le by (simp add: exponent_def pow2_def)
next
  case False
  assume nz: "x \<noteq> 0"
  then have pos: "0 < \<bar>x\<bar>" by simp
  let ?n = "\<lceil>1 / \<bar>x\<bar>\<rceil> - 1"
  have "1 < 1 / \<bar>x\<bar>" using False pos by simp
  then have n: "0 < ?n" by (simp add: less_ceiling_iff)
  let ?k = "bitlen ?n"
  have k: "1 \<le> ?k" using n by (simp add: bitlen_alt_def)
  from bitlen_bounds [OF n] have "?n < 2 ^ nat ?k" by simp
  then have "\<lceil>1 / \<bar>x\<bar>\<rceil> \<le> 2 ^ nat ?k" by simp
  then have "of_int \<lceil>1 / \<bar>x\<bar>\<rceil> \<le> (2::real) ^ nat ?k"
    by (metis of_int_le_iff of_int_numeral of_int_power)
  then have "1 / \<bar>x\<bar> \<le> 2 ^ nat ?k"
    by (meson le_of_int_ceiling order_trans)
  then have "1 / 2 ^ nat ?k \<le> \<bar>x\<bar>"
    using pos by (simp add: field_simps)
  then show ?thesis using False k by (simp add: exponent_def pow2_def)
qed

lemma grid_le: "x \<noteq> 0 \<Longrightarrow> pow2 (max (exponent x) (- 1022) - 52) \<le> \<bar>x\<bar> + 1"
proof -
  assume nz: "x \<noteq> 0"
  have small: "pow2 (- 52) \<le> 1" "pow2 (- 1074) \<le> 1"
    using pow2_mono [of "- 52" 0] pow2_mono [of "- 1074" 0] by (simp_all add: pow2_def)
  show ?thesis
  proof (cases "- 1022 \<le> exponent x")
    case True
    then have "pow2 (max (exponent x) (- 1022) - 52) = pow2 (exponent x) * pow2 (- 52)"
      using pow2_add [of "exponent x" "- 52"] by (simp add: max_def)
    also have "\<dots> \<le> pow2 (exponent x) * 1"
      using small(1) pow2_pos [of "exponent x"] by (intro mult_left_mono) simp_all
    also have "\<dots> \<le> \<bar>x\<bar>" using exponent_le [OF nz] by simp
    finally show ?thesis by simp
  next
    case False
    then have "pow2 (max (exponent x) (- 1022) - 52) = pow2 (- 1074)"
      by (simp add: max_def)
    then show ?thesis using small(2) by simp
  qed
qed

lemma round_double_bound: "\<bar>round_double x\<bar> \<le> 3 / 2 * \<bar>x\<bar> + 1 / 2"
proof (cases "x = 0")
  case True
  then show ?thesis by (simp add: round_double_def)
next
  case False
  define g where "g = pow2 (max (exponent x) (- 1022) - 52)"
  have g: "0 < g" "g \<le> \<bar>x\<bar> + 1"
    unfolding g_def using pow2_pos grid_le [OF False] by simp_all
  have r: "round_double x = of_int (round_half_even (x / g)) * g"
    using False by (simp add: round_double_def g_def Let_def)
  have "of_int (round_half_even (x / g)) * g - x
          = (of_int (round_half_even (x / g)) - x / g) * g"
    using g(1) by (simp add: field_simps)
  then have "\<bar>of_int (round_half_even (x / g)) * g - x\<bar>
          = \<bar>of_int (round_half_even (x / g)) - x / g\<bar> * g"
    using g(1) by (simp add: abs_mult)
  also have "\<dots> \<le> 1 / 2 * g"
    using round_half_even_error [of "x / g"] g(1) by (intro mult_right_mono) simp_all
  finally have "\<bar>round_double x - x\<bar> \<le> 1 / 2 * g" by (simp add: r)
  then show ?thesis using g(2) by linarith
qed

lemma round_double_nonneg: "0 \<le> x \<Longrightarrow> 0 \<le> round_double x"
  using pow2_pos round_half_even_nonneg [of "x / pow2 (max (exponent x) (- 1022) - 52)"]
  by (simp add: round_double_def Let_def less_imp_le)

lemma round_double_nonpos: "x \<le> 0 \<Longrightarrow> round_double x \<le> 0"
  using pow2_pos [of "max (exponent x) (- 1022) - 52"]
    round_half_even_nonpos [of "x / pow2 (max (exponent x) (- 1022) - 52)"]
  by (simp add: round_double_def Let_def mult_le_0_iff divide_le_0_iff less_imp_le)

lemma exponent_le_0: "0 < x \<Longrightarrow> x \<le> 1 \<Longrightarrow> exponent x \<le> 0"
proof -
  assume x: "0 < x" "x \<le> 1"
  show ?thesis
  proof (cases "1 \<le> \<bar>x\<bar>")
    case True
    with x have "x = 1" by simp
    then show ?thesis by (simp add: exponent_def compute_bitlen)
  next
    case False
    then show ?thesis using bitlen_nonneg by (simp add: exponent_def)
  qed
qed

lemma round_double_le_1: "x \<le> 1 \<Longrightarrow> round_double x \<le> 1"
proof (cases "x \<le> 0")
  case True
  then show ?thesis using round_double_nonpos [of x] by simp
next
  case False
  assume "x \<le> 1"
  with False have x: "0 < x" "x \<le> 1" by simp_all
  define e where "e = max (exponent x) (- 1022)"
  have e: "e \<le> 0" unfolding e_def using exponent_le_0 [OF x] by simp
  define k where "k = nat (52 - e)"
  have g: "pow2 (e - 52) = 1 / 2 ^ k"
    using e by (simp add: pow2_def k_def)
  have "x / pow2 (e - 52) = x * 2 ^ k" by (simp add: g)
  also have "\<dots> \<le> 1 * 2 ^ k" using x(2) by (intro mult_right_mono) simp_all
  finally have "x / pow2 (e - 52) \<le> of_int (2 ^ k)" by simp
  then have "round_half_even (x / pow2 (e - 52)) \<le> 2 ^ k"
    by (rule round_half_even_le_int)
  then have "of_int (round_half_even (x / pow2 (e - 52))) \<le> (2::real) ^ k"
    by (metis of_int_le_iff of_int_numeral of_int_power)
  then have "of_int (round_half_even (x / pow2 (e - 52))) * pow2 (e - 52) \<le> 2 ^ k * (1 / 2 ^ k)"
    unfolding g by (intro mult_right_mono) simp_all
  then show ?thesis using x(1) by (simp add: round_double_def Let_def e_def [symmetric])
qed

lemma fl_not_NaN: "fl x \<noteq> NaN"
  by (simp add: fl_def Let_def)

lemma pow2_1024_gt_1: "1 < pow2 1024"
  using pow2_ge_1 [of 1023] pow2_Suc [of 1023] by simp

lemma fl_nonneg: "0 \<le> x \<Longrightarrow> fl x = PInf \<or> (\<exists>y. fl x = Fin y \<and> 0 \<le> y)"
  using round_double_nonneg [of x] pow2_pos [of 1024] by (simp add: fl_def Let_def)

lemma fl_nonpos: "x \<le> 0 \<Longrightarrow> fl x = NInf \<or> (\<exists>y. fl x = Fin y \<and> y \<le> 0)"
  using round_double_nonpos [of x] pow2_pos [of 1024] by (simp add: fl_def Let_def)

lemma fl_le_1: "x \<le> 1 \<Longrightarrow> fl x = NInf \<or> (\<exists>y. fl x = Fin y \<and> y \<le> 1)"
  using round_double_le_1 [of x] pow2_1024_gt_1 by (simp add: fl_def Let_def)

lemma fl_Fin_bound:
  assumes "\<bar>x\<bar> \<le> B" "3 / 2 * B + 1 / 2 < pow2 1024"
  shows "\<exists>y. fl x = Fin y \<and> \<bar>y\<bar> \<le> 3 / 2 * B + 1 / 2"
proof -
  have "\<bar>round_double x\<bar> \<le> 3 / 2 * B + 1 / 2"
    using round_double_bound [of x] assms(1) by linarith
  then show ?thesis using assms(2) by (simp add: fl_def Let_def abs_if split: if_splits)
qed

lemma fle_zero_iff: "fle x (Fin 0) \<longleftrightarrow> x = NInf \<or> (\<exists>y. x = Fin y \<and> y \<le> 0)"
  by (cases x) simp_all

lemma kelly_p_nonpos: "fle c (Fin 0) \<Longrightarrow> fle (kelly_p c) (Fin 0)"
proof (cases c)
  case (Fin x)
  assume "fle c (Fin 0)"
  with Fin have "x / 100 \<le> 0" by simp
  from fl_nonpos [OF this] show ?thesis by (auto simp: kelly_p_def Fin)
qed (simp_all add: kelly_p_def)

lemma kelly_b_nonpos: "fle pm (Fin 0) \<Longrightarrow> fle (kelly_b pm) (Fin 0)"
proof (cases pm)
  case (Fin x)
  assume "fle pm (Fin 0)"
  with Fin have "x / 100 \<le> 0" by simp
  from fl_nonpos [OF this] show ?thesis
  proof
    assume "fl (x / 100) = NInf"
    then show ?thesis by (simp add: kelly_b_def Fin)
  next
    assume "\<exists>y. fl (x / 100) = Fin y \<and> y \<le> 0"
    then obtain y where y: "fl (x / 100) = Fin y" "y \<le> 0" by blast
    then have "1 + y \<le> 1" by simp
    from fl_le_1 [OF this] show ?thesis
    proof
      assume "fl (1 + y) = NInf"
      then show ?thesis by (simp add: kelly_b_def Fin y)
    next
      assume "\<exists>z. fl (1 + y) = Fin z \<and> z \<le> 1"
      then obtain z where z: "fl (1 + y) = Fin z" "z \<le> 1" by blast
      then have "z - 1 \<le> 0" by simp
      from fl_nonpos [OF this] show ?thesis
        by (auto simp: kelly_b_def Fin y z)
    qed
  qed
qed (simp_all add: kelly_b_def)

lemma kelly_fl_guard:
  "fle pm (Fin 0) \<or> fle c (Fin 0) \<Longrightarrow> calculate_kelly_bet_size_fl pm c rs = Inr (Fin 0)"
  using kelly_b_nonpos [of pm] kelly_p_nonpos [of c]
  by (auto simp: calculate_kelly_bet_size_fl_def Let_def)

lemma kelly_fl_Inr:
  "calculate_kelly_bet_size_fl pm c rs =
     Inr (if fle (kelly_b pm) (Fin 0) \<or> fle (kelly_p c) (Fin 0) then Fin 0
          else py_min (py_max
                 (fmul (fdiv (fsub (fmul (kelly_b pm) (kelly_p c)) (fsub (Fin 1) (kelly_p c)))
                          (kelly_b pm))
                    (py_max (fl 0.1) (fsub (Fin 1) (fdiv rs (Fin 100)))))
                 (Fin 0)) (fl 0.10))"
proof -
  have "kelly_b pm \<noteq> Fin 0" if "\<not> fle (kelly_b pm) (Fin 0)"
    using that by (cases "kelly_b pm") auto
  then show ?thesis
    by (simp add: calculate_kelly_bet_size_fl_def Let_def truediv_fl_def)
qed

lemma fl_tenth: "fl (1 / 10) = Fin (3602879701896397 / 36028797018963968)"
  by (simp add: flsimps)

lemma clamp_cases:
  assumes "0 \<le> d"
  shows "py_min (py_max x (Fin 0)) (Fin d) = NaN \<and> x = NaN
     \<or> (\<exists>v. py_min (py_max x (Fin 0)) (Fin d) = Fin v \<and> 0 \<le> v \<and> v \<le> d \<and> x \<noteq> NaN)"
  using assms by (cases x) (auto simp: py_min_def py_max_def)

lemma pow2_1024_split: "pow2 1024 = 64 * pow2 1018" "1 \<le> pow2 1018"
proof -
  have "pow2 6 = 64" by (simp add: pow2_def)
  then show "pow2 1024 = 64 * pow2 1018" using pow2_add [of 1018 6] by simp
  show "1 \<le> pow2 1018" by (rule pow2_ge_1) simp
qed

lemma div_100_finite:
  assumes "is_finite x"
  shows "\<exists>y. fdiv x (Fin 100) = Fin y \<and> \<bar>y\<bar> \<le> 2 * pow2 1018"
proof -
  from assms obtain a where a: "x = Fin a" "\<bar>a\<bar> < pow2 1024"
    by (cases x) (simp_all add: is_finite_def)
  have "\<bar>a / 100\<bar> \<le> pow2 1018" using a(2) pow2_1024_split by simp
  from fl_Fin_bound [OF this] pow2_1024_split
  obtain y where "fl (a / 100) = Fin y" "\<bar>y\<bar> \<le> 3 / 2 * pow2 1018 + 1 / 2" by auto
  then show ?thesis using pow2_1024_split a(1) by auto
qed

lemma one_minus_div_100_finite:
  assumes "is_finite x"
  shows "\<exists>y. fsub (Fin 1) (fdiv x (Fin 100)) = Fin y"
proof -
  from div_100_finite [OF assms] obtain y
    where y: "fdiv x (Fin 100) = Fin y" "\<bar>y\<bar> \<le> 2 * pow2 1018" by blast
  have "\<bar>1 - y\<bar> \<le> 3 * pow2 1018" using y(2) pow2_1024_split(2) by linarith
  from fl_Fin_bound [OF this] pow2_1024_split
  obtain z where "fl (1 - y) = Fin z" by auto
  then show ?thesis by (simp add: y(1))
qed

lemma kelly_b_finite:
  assumes "is_finite pm"
  shows "\<exists>b. kelly_b pm = Fin b"
proof -
  from div_100_finite [OF assms] obtain y
    where y: "fdiv pm (Fin 100) = Fin y" "\<bar>y\<bar> \<le> 2 * pow2 1018" by blast
  have "\<bar>1 + y\<bar> \<le> 3 * pow2 1018" using y(2) pow2_1024_split(2) by linarith
  from fl_Fin_bound [OF this] pow2_1024_split
  obtain z where z: "fl (1 + y) = Fin z" "\<bar>z\<bar> \<le> 3 / 2 * (3 * pow2 1018) + 1 / 2" by auto
  have "\<bar>z - 1\<bar> \<le> 6 * pow2 1018" using z(2) pow2_1024_split(2) by linarith
  from fl_Fin_bound [OF this] pow2_1024_split
  obtain b where "fl (z - 1) = Fin b" by auto
  then show ?thesis by (simp add: kelly_b_def y(1) z(1))
qed

lemma fsub_Fin_not_NaN: "x \<noteq> NaN \<Longrightarrow> fsub x (Fin q) \<noteq> NaN"
  by (cases x) (simp_all add: fl_not_NaN)

lemma fdiv_Fin_not_NaN: "x \<noteq> NaN \<Longrightarrow> fdiv x (Fin b) \<noteq> NaN"
  by (cases x) (simp_all add: fl_not_NaN)

lemma fmul_pos_not_NaN: "x \<noteq> NaN \<Longrightarrow> 0 < r \<Longrightarrow> fmul x (Fin r) \<noteq> NaN"
  by (cases x) (simp_all add: fl_not_NaN inf_signed_def)

lemma risk_adjustment_pos:
  "\<exists>r. py_max (fl 0.1) (Fin y) = Fin r \<and> 0 < r"
proof (cases "3602879701896397 / 36028797018963968 < y")
  case True
  then have "py_max (fl 0.1) (Fin y) = Fin y \<and> 0 < y"
    by (simp add: py_max_def fl_tenth)
  then show ?thesis by blast
next
  case False
  then have "py_max (fl 0.1) (Fin y) = Fin (3602879701896397 / 36028797018963968)"
    by (simp add: py_max_def fl_tenth)
  moreover have "(0::real) < 3602879701896397 / 36028797018963968" by simp
  ultimately show ?thesis by blast
qed

lemma kelly_fl_finite_not_NaN:
  assumes "is_finite pm" "is_finite c" "is_finite rs"
  shows "calculate_kelly_bet_size_fl pm c rs \<noteq> Inr NaN"
proof (cases "fle (kelly_b pm) (Fin 0) \<or> fle (kelly_p c) (Fin 0)")
  case True
  then show ?thesis by (simp add: kelly_fl_Inr)
next
  case False
  obtain b where b: "kelly_b pm = Fin b" using kelly_b_finite [OF assms(1)] by blast
  obtain p where p: "kelly_p c = Fin p"
    using div_100_finite [OF assms(2)] by (auto simp: kelly_p_def)
  obtain q where q: "fsub (Fin 1) (kelly_p c) = Fin q"
    using one_minus_div_100_finite [OF assms(2)] by (auto simp: kelly_p_def)
  obtain y where y: "fsub (Fin 1) (fdiv rs (Fin 100)) = Fin y"
    using one_minus_div_100_finite [OF assms(3)] by blast
  obtain r where r: "py_max (fl 0.1) (Fin y) = Fin r" "0 < r"
    using risk_adjustment_pos by blast
  from False b p have pos: "0 < b" "0 < p" by simp_all
  have "fmul (Fin b) (Fin p) \<noteq> NaN" by (simp add: fl_not_NaN)
  then have "fsub (fmul (Fin b) (Fin p)) (Fin q) \<noteq> NaN" by (rule fsub_Fin_not_NaN)
  then have "fdiv (fsub (fmul (Fin b) (Fin p)) (Fin q)) (Fin b) \<noteq> NaN"
    by (rule fdiv_Fin_not_NaN)
  then have adj: "fmul (fdiv (fsub (fmul (Fin b) (Fin p)) (Fin q)) (Fin b)) (Fin r) \<noteq> NaN"
    using r(2) by (rule fmul_pos_not_NaN)
  have d: "(0::real) \<le> 3602879701896397 / 36028797018963968" by simp
  from clamp_cases [OF d, of "fmul (fdiv (fsub (fmul (Fin b) (Fin p)) (Fin q)) (Fin b)) (Fin r)"] adj
  have "py_min (py_max (fmul (fdiv (fsub (fmul (Fin b) (Fin p)) (Fin q)) (Fin b)) (Fin r)) (Fin 0))
          (fl 0.10) \<noteq> NaN"
    by (auto simp: fl_tenth)
  moreover have "fl (1 - p) = Fin q" using q p by simp
  ultimately show ?thesis using False by (simp add: kelly_fl_Inr b p y r(1))
qed

section \<open>Properties of the position sizer\<close>

text \<open>
  Claim C1 bounds the bet size by 0.0 and 0.10 for every input triple. The bound fails
  where an input is an infinity or NaN: an infinite profit margin, a NaN confidence, or a
  risk score of minus infinity against a Kelly fraction of 0, each give NaN, which the
  final \<^verbatim>\<open>min\<close> and \<^verbatim>\<open>max\<close> pass on.
\<close>

theorem kelly_bet_size_nan_counterexample:
  "calculate_kelly_bet_size_fl PInf (Fin 50) (Fin 10) = Inr NaN
   \<and> calculate_kelly_bet_size_fl (Fin 5) NaN (Fin 10) = Inr NaN
   \<and> calculate_kelly_bet_size_fl (Fin 100) (Fin 50) NInf = Inr NaN"
  by (simp add: calculate_kelly_bet_size_fl_def kelly_b_def kelly_p_def truediv_fl_def
        py_max_def py_min_def inf_signed_def flsimps)

text \<open>
  Claim C1, as the code has it. For every triple of floats
  \<^verbatim>\<open>_calculate_kelly_bet_size\<close> returns, and its result is NaN or lies between 0.0 and
  the double 0.10. For every triple of finite floats the result is a finite number between
  0.0 and 0.10; this covers a negative Kelly fraction (floored at 0) and a finite risk
  score above 100.
\<close>

theorem kelly_bet_size_fl_range:
  "(\<exists>r. calculate_kelly_bet_size_fl pm c rs = Inr r
         \<and> (r = NaN \<or> fle (Fin 0.0) r \<and> fle r (fl 0.10)))
   \<and> (is_finite pm \<and> is_finite c \<and> is_finite rs \<longrightarrow>
        (\<exists>v. calculate_kelly_bet_size_fl pm c rs = Inr (Fin v)
              \<and> 0 \<le> v \<and> v \<le> round_double 0.10))"
proof -
  have d: "(0::real) \<le> 3602879701896397 / 36028797018963968" by simp
  have rd: "round_double (1 / 10) = 3602879701896397 / 36028797018963968"
    by (simp add: flsimps)
  obtain r where r: "calculate_kelly_bet_size_fl pm c rs = Inr r"
    using kelly_fl_Inr by blast
  have range: "r = NaN \<or> (\<exists>v. r = Fin v \<and> 0 \<le> v \<and> v \<le> 3602879701896397 / 36028797018963968)"
  proof (cases "fle (kelly_b pm) (Fin 0) \<or> fle (kelly_p c) (Fin 0)")
    case True
    then have "r = Fin 0" using r by (simp add: kelly_fl_Inr)
    then show ?thesis by simp
  next
    case False
    then show ?thesis
      using r clamp_cases [OF d, of "fmul (fdiv (fsub (fmul (kelly_b pm) (kelly_p c)) (fsub (Fin 1) (kelly_p c)))
                          (kelly_b pm))
                    (py_max (fl 0.1) (fsub (Fin 1) (fdiv rs (Fin 100))))"]
      by (auto simp: kelly_fl_Inr fl_tenth)
  qed
  then have 1: "r = NaN \<or> fle (Fin 0.0) r \<and> fle r (fl 0.10)"
    by (auto simp: fl_tenth)
  have 2: "\<exists>v. calculate_kelly_bet_size_fl pm c rs = Inr (Fin v) \<and> 0 \<le> v \<and> v \<le> round_double 0.10"
    if "is_finite pm \<and> is_finite c \<and> is_finite rs"
  proof -
    from that kelly_fl_finite_not_NaN [of pm c rs] r have "r \<noteq> NaN" by auto
    with range r show ?thesis by (auto simp: rd)
  qed
  from r 1 2 show ?thesis by blast
qed

theorem kelly_bet_size_fl_range_witness:
  "is_finite (Fin 20) \<and> is_finite (Fin 90) \<and> is_finite (Fin 35)
   \<and> calculate_kelly_bet_size_fl (Fin 20) (Fin 90) (Fin 35) = Inr (fl 0.10)"
proof -
  have f: "is_finite (Fin 20)" "is_finite (Fin 90)" "is_finite (Fin 35)"
    by (simp_all add: is_finite_def pow2_def)
  have ev: "calculate_kelly_bet_size_fl (Fin 20) (Fin 90) (Fin 35) = Inr (fl 0.10)"
    by (simp add: calculate_kelly_bet_size_fl_def kelly_b_def kelly_p_def truediv_fl_def
        py_max_def py_min_def inf_signed_def flsimps)
  from kelly_bet_size_fl_range [of "Fin 20" "Fin 90" "Fin 35"] f ev show ?thesis by simp
qed

text \<open>
  Claim C6 takes the guard \<open>b \<le> 0 \<or> p \<le> 0\<close> to be the same condition as a profit
  margin or a confidence that is not positive. It is not: for the positive profit margin
  \<open>100 / 2 ^ 60\<close>, a double, the quotient by 100 is \<open>1 / 2 ^ 60\<close>, the sum with 1
  rounds to 1, so \<open>b\<close> is 0.0, the guard fires and the function returns 0.0 although
  profit margin and confidence are both positive.
\<close>

theorem kelly_guard_equivalence_counterexample:
  "\<not> (fle (Fin (100 / 2 ^ 60)) (Fin 0) \<or> fle (Fin 100) (Fin 0))
   \<and> kelly_b (Fin (100 / 2 ^ 60)) = Fin 0
   \<and> fle (kelly_b (Fin (100 / 2 ^ 60))) (Fin 0)
   \<and> calculate_kelly_bet_size_fl (Fin (100 / 2 ^ 60)) (Fin 100) (Fin 0) = Inr (Fin 0)
   \<and> round_double (100 / 2 ^ 60) = 100 / 2 ^ 60"
  by (simp add: calculate_kelly_bet_size_fl_def kelly_b_def kelly_p_def truediv_fl_def
        py_max_def py_min_def inf_signed_def flsimps)

text \<open>
  Claim C6, as the code has it. Whenever the profit margin or the confidence is at most 0,
  \<^verbatim>\<open>_calculate_kelly_bet_size\<close> returns 0.0 at its guard, before the Kelly fraction
  is computed. The guard tests \<open>b\<close> and \<open>p\<close> themselves: where it does not fire,
  \<open>b\<close> is positive or NaN and in no case 0, so the division by \<open>b\<close> has no zero
  divisor, and the function raises for no input at all.
\<close>

theorem kelly_fl_guard_no_division_by_zero:
  "(fle pm (Fin 0) \<or> fle c (Fin 0) \<longrightarrow> calculate_kelly_bet_size_fl pm c rs = Inr (Fin 0.0))
   \<and> (\<not> (fle (kelly_b pm) (Fin 0) \<or> fle (kelly_p c) (Fin 0)) \<longrightarrow>
        kelly_b pm \<noteq> Fin 0 \<and> (flt (Fin 0) (kelly_b pm) \<or> kelly_b pm = NaN))
   \<and> (\<forall>e. calculate_kelly_bet_size_fl pm c rs \<noteq> Inl e)"
proof (intro conjI impI allI)
  assume "fle pm (Fin 0) \<or> fle c (Fin 0)"
  then show "calculate_kelly_bet_size_fl pm c rs = Inr (Fin 0.0)"
    using kelly_fl_guard by simp
next
  assume "\<not> (fle (kelly_b pm) (Fin 0) \<or> fle (kelly_p c) (Fin 0))"
  then show "kelly_b pm \<noteq> Fin 0" by (cases "kelly_b pm") auto
next
  assume "\<not> (fle (kelly_b pm) (Fin 0) \<or> fle (kelly_p c) (Fin 0))"
  then show "flt (Fin 0) (kelly_b pm) \<or> kelly_b pm = NaN" by (cases "kelly_b pm") auto
next
  fix e show "calculate_kelly_bet_size_fl pm c rs \<noteq> Inl e"
    by (simp add: kelly_fl_Inr)
qed

theorem kelly_fl_guard_no_division_by_zero_witness:
  "fle (Fin (- 1)) (Fin 0)
   \<and> calculate_kelly_bet_size_fl (Fin (- 1)) (Fin 50) (Fin 10) = Inr (Fin 0.0)
   \<and> \<not> (fle (kelly_b (Fin 20)) (Fin 0) \<or> fle (kelly_p (Fin 90)) (Fin 0))
   \<and> kelly_b (Fin 20) \<noteq> Fin 0"
proof -
  have neg: "fle (Fin (- 1)) (Fin 0)" by simp
  have pos: "\<not> (fle (kelly_b (Fin 20)) (Fin 0) \<or> fle (kelly_p (Fin 90)) (Fin 0))"
    by (simp add: kelly_b_def kelly_p_def flsimps)
  from kelly_fl_guard_no_division_by_zero [of "Fin (- 1)" "Fin 50" "Fin 10"]
    kelly_fl_guard_no_division_by_zero [of "Fin 20" "Fin 90" "Fin 10"] neg pos
  show ?thesis by blast
qed

section \<open>Properties of the reasoning engine\<close>

subsection \<open>Auxiliary facts\<close>

lemma kelly_closed_form:
  "calculate_kelly_bet_size pm c rs =
     Inr (if pm \<le> 0 \<or> c \<le> 0 then 0
          else min (max (((pm / 100) * (c / 100) - (1 - c / 100)) / (pm / 100)
                           * max 0.1 (1 - rs / 100)) 0) 0.1)"
  by (simp add: calculate_kelly_bet_size_def truediv_def Let_def)

lemma asset_type_of_cases: "asset_type_of m = ''btc'' \<or> asset_type_of m = ''eth''"
  by (simp add: asset_type_of_def)

lemma init_history_no_asset_key:
  "map_of (kb_historical_performance init_knowledge_base) (asset_type_of m) = None"
  using asset_type_of_cases [of m] by (auto simp: init_knowledge_base_def)

lemma rule3_init_skips: "rule3_asset_history init_knowledge_base m st = Inr st"
  by (cases st) (simp add: rule3_asset_history_def init_history_no_asset_key)

lemma risk_rules_init:
  "risk_rules init_knowledge_base m pm c =
     Inr (rule4_volatility init_knowledge_base
            (rule2_confidence init_knowledge_base c
               (rule1_profit_margin init_knowledge_base pm (0, []))))"
  by (simp add: risk_rules_def rule3_init_skips)

lemma risk_score_init:
  "fst (rule4_volatility init_knowledge_base
            (rule2_confidence init_knowledge_base c
               (rule1_profit_margin init_knowledge_base pm (0, [])))) =
   (if pm > 15 then 30 else if pm > 8 then 10 else 0)
   + (if c < 60 then 25 else if c > 85 then - 10 else 0) + 15"
  by (simp add: rule4_volatility_def rule2_confidence_def rule1_profit_margin_def
      init_knowledge_base_def)

lemma analyze_opportunity_Inr:
  assumes "opp_market opp = Some m" "opp_profit_margin opp = Some pm" "opp_confidence opp = Some c"
    and "risk_rules kb m pm c = Inr (rs, r4)"
    and "calculate_kelly_bet_size pm c rs = Inr v"
  shows "analyze_opportunity kb opp =
     Inr \<lparr> oa_market = m, oa_profit_margin = pm, oa_confidence = c,
           oa_risk_score = rs,
           oa_recommendation = generate_recommendation kb pm c rs,
           oa_bet_size = v,
           oa_reasoning = r4 @ [''Recommendation: '' @ generate_recommendation kb pm c rs] \<rparr>"
  using assms by (simp add: analyze_opportunity_def getitem_def Let_def)

subsection \<open>Recommendation\<close>

text \<open>
  Claim C2. With the knowledge base of the constructor, whose \<^verbatim>\<open>max_risk_score\<close> is
  70.0, \<^verbatim>\<open>_generate_recommendation\<close> returns EXECUTE exactly when the profit margin is
  above 5.0, the confidence above 70.0 and the risk score below 70.0; otherwise MONITOR when
  the profit margin is above 3.0, the confidence above 60.0 and the risk score below 80.0;
  otherwise SKIP.
\<close>

theorem generate_recommendation_rule:
  "generate_recommendation init_knowledge_base pm c rs =
     (if pm > 5.0 \<and> c > 70.0 \<and> rs < 70.0 then ''EXECUTE''
      else if pm > 3.0 \<and> c > 60.0 \<and> rs < 80.0 then ''MONITOR''
      else ''SKIP'')
   \<and> (generate_recommendation init_knowledge_base pm c rs = ''EXECUTE''
        \<longleftrightarrow> pm > 5.0 \<and> c > 70.0 \<and> rs < 70.0)
   \<and> max_risk_score (kb_risk_parameters init_knowledge_base) = 70.0"
  by (simp add: generate_recommendation_def init_knowledge_base_def)

subsection \<open>Risk score\<close>

text \<open>
  Claim C10. For every opportunity that carries its three keys, \<^verbatim>\<open>analyze_opportunity\<close>
  on the constructor's knowledge base returns an analysis whose risk score is the sum of
  the profit-margin contribution (0, 10 or 30), the confidence contribution (-10, 0 or 25)
  and the volatility contribution 15. The asset-history rule contributes nothing: the
  classified asset name is not a key of \<^verbatim>\<open>historical_performance\<close>, so the rule
  leaves every state unchanged. Hence the risk score is one of 5, 15, 25, 35, 40, 45, 50,
  70; it lies between 5 and 70, stays below 80, and is at least 70 only when it is 70.
\<close>

theorem analyze_opportunity_risk_score_range:
  assumes "opp_market opp = Some m" "opp_profit_margin opp = Some pm" "opp_confidence opp = Some c"
  shows "\<exists>a. analyze_opportunity init_knowledge_base opp = Inr a
     \<and> oa_risk_score a =
           (if pm > 15 then 30 else if pm > 8 then 10 else 0)
           + (if c < 60 then 25 else if c > 85 then - 10 else 0) + 15
     \<and> 5 \<le> oa_risk_score a \<and> oa_risk_score a \<le> 70 \<and> oa_risk_score a < 80
     \<and> oa_risk_score a \<in> {5, 15, 25, 35, 40, 45, 50, 70}
     \<and> map_of (kb_historical_performance init_knowledge_base) (asset_type_of m) = None
     \<and> rule3_asset_history init_knowledge_base m st = Inr st"
proof -
  obtain rs r4 where st: "risk_rules init_knowledge_base m pm c = Inr (rs, r4)"
    by (metis risk_rules_init surj_pair)
  obtain v where v: "calculate_kelly_bet_size pm c rs = Inr v"
    using kelly_closed_form by blast
  have "rs = fst (rule4_volatility init_knowledge_base
            (rule2_confidence init_knowledge_base c
               (rule1_profit_margin init_knowledge_base pm (0, []))))"
    using st by (simp add: risk_rules_init)
  then have rs: "rs = (if pm > 15 then 30 else if pm > 8 then 10 else 0)
      + (if c < 60 then 25 else if c > 85 then - 10 else 0) + 15"
    by (simp only: risk_score_init)
  show ?thesis
    unfolding analyze_opportunity_Inr [OF assms st v]
    by (simp add: rs init_history_no_asset_key rule3_init_skips)
qed

theorem analyze_opportunity_risk_score_range_witness:
  "opp_market \<lparr> opp_market = Some ''BTC above 120k?'', opp_profit_margin = Some 20, opp_confidence = Some 50 \<rparr> = Some ''BTC above 120k?''
   \<and> (\<exists>a. analyze_opportunity init_knowledge_base
        \<lparr> opp_market = Some ''BTC above 120k?'', opp_profit_margin = Some 20, opp_confidence = Some 50 \<rparr> = Inr a
         \<and> oa_risk_score a = 70)"
  using analyze_opportunity_risk_score_range
    [of "\<lparr> opp_market = Some ''BTC above 120k?'', opp_profit_margin = Some 20, opp_confidence = Some 50 \<rparr>"
        "''BTC above 120k?''" 20 50 "(0, [])"]
  by auto

text \<open>
  Claim C3. The asset-history rule is meant to subtract 5 from the risk score of a market
  classified BTC (accuracy 0.72) and to add 10 for one classified ETH (accuracy 0.68). On
  the sample opportunity of the source the market is classified \<open>btc\<close> and the table
  holds the entry \<open>btc_predictions\<close>, yet the membership test asks for the key
  \<open>btc\<close>, which the table lacks: the rule leaves the state unchanged, the risk score
  is 15 and not 10, and the reasoning has no entry on historical accuracy. Were the key
  \<open>btc\<close> present as well, the body of the rule would subtract 5 and append its entry.
\<close>

theorem asset_history_rule_skipped_on_demo:
  "asset_type_of demo_market = ''btc''
   \<and> map_of (kb_historical_performance init_knowledge_base) ''btc'' = None
   \<and> map_of (kb_historical_performance init_knowledge_base) ''btc_predictions''
       = Some \<lparr> accuracy = 0.72, avg_margin = 4.2 \<rparr>
   \<and> rule3_asset_history init_knowledge_base demo_market (0, []) = Inr (0, [])
   \<and> rule3_asset_history
         (init_knowledge_base\<lparr> kb_historical_performance :=
            (''btc'', \<lparr> accuracy = 0.72, avg_margin = 4.2 \<rparr>)
              # kb_historical_performance init_knowledge_base \<rparr>)
         demo_market (0, [])
       = Inr (- 5, [''Strong historical accuracy for BTC predictions''])
   \<and> map_sum id oa_risk_score (analyze_opportunity init_knowledge_base demo_opportunity) = Inr 15
   \<and> map_sum id oa_reasoning (analyze_opportunity init_knowledge_base demo_opportunity)
       = Inr [''Moderate profit margin (6.2%)'',
              ''High crypto market volatility increases risk'',
              ''Recommendation: EXECUTE'']"
  by code_simp

subsection \<open>Audit trail\<close>




section \<open>Properties of the policy filter and the trade execution\<close>

subsection \<open>Auxiliary facts\<close>

lemma str_contains_iff_sublist: "str_contains h n \<longleftrightarrow> sublist n h"
  by (induction h) (simp_all add: sublist_Cons_right)

lemma list_ex_str_contains:
  "list_ex (\<lambda>m. str_contains mk m) xs \<longleftrightarrow> (\<exists>a \<in> set xs. sublist a mk)"
  by (simp add: list_ex_iff str_contains_iff_sublist)

lemma check_policy_compliance_total:
  assumes "rec_profit_margin r = Some pm" "rec_confidence r = Some c"
    "rec_risk_score r = Some rs" "rec_market r = Some mk"
  shows "check_policy_compliance r p =
     Inr (\<not> (pm < get_default (pol_min_profit_margin p) 3.0
              \<or> c < get_default (pol_min_confidence p) 60.0
              \<or> rs > get_default (pol_max_risk_score p) 70.0
              \<or> (get_default (approved_markets p) [] \<noteq> []
                  \<and> \<not> list_ex (\<lambda>m. str_contains mk m) (get_default (approved_markets p) []))))"
  using assms by (simp add: check_policy_compliance_def getitem_def Let_def)

lemma check_True_profit_margin:
  assumes "check_policy_compliance r p = Inr True"
  shows "\<exists>pm. rec_profit_margin r = Some pm"
  using assms
  by (cases "rec_profit_margin r") (simp_all add: check_policy_compliance_def getitem_def)

lemma check_policy_compliance_past_margin:
  assumes "rec_profit_margin r = Some pm"
    and "\<not> pm < get_default (pol_min_profit_margin p1) 3.0"
    and "\<not> pm < get_default (pol_min_profit_margin p2) 3.0"
    and "pol_min_confidence p1 = pol_min_confidence p2"
    and "pol_max_risk_score p1 = pol_max_risk_score p2"
    and "approved_markets p1 = approved_markets p2"
  shows "check_policy_compliance r p1 = check_policy_compliance r p2"
  using assms(1-3) unfolding check_policy_compliance_def assms(4-6)
  by (simp add: getitem_def)

lemma check_True_margin_ok:
  assumes "check_policy_compliance r p = Inr True" "rec_profit_margin r = Some pm"
  shows "\<not> pm < get_default (pol_min_profit_margin p) 3.0"
proof
  assume "pm < get_default (pol_min_profit_margin p) 3.0"
  then have "check_policy_compliance r p = Inr False"
    using assms(2) by (simp add: check_policy_compliance_def getitem_def)
  with assms(1) show False by simp
qed






subsection \<open>Policy compliance\<close>

text \<open>
  Claim C5. For every recommendation that carries its keys and every user policy,
  \<^verbatim>\<open>_check_policy_compliance\<close> returns a truth value, and it returns false exactly
  when the profit margin is below the policy's minimum (3.0 when absent), or the
  confidence is below the policy's minimum (60.0 when absent), or the risk score is above
  the policy's maximum (70.0 when absent), or the list of approved markets is not empty and
  none of its strings occurs in the market text as a contiguous substring, compared
  character by character. An absent or empty list of approved markets restricts nothing.
\<close>

theorem check_policy_compliance_rejects_iff:
  assumes "rec_profit_margin r = Some pm" "rec_confidence r = Some c"
    "rec_risk_score r = Some rs" "rec_market r = Some mk"
  shows "(\<exists>b. check_policy_compliance r p = Inr b)
     \<and> (check_policy_compliance r p = Inr False \<longleftrightarrow>
          pm < get_default (pol_min_profit_margin p) 3.0
          \<or> c < get_default (pol_min_confidence p) 60.0
          \<or> rs > get_default (pol_max_risk_score p) 70.0
          \<or> (get_default (approved_markets p) [] \<noteq> []
              \<and> (\<forall>a \<in> set (get_default (approved_markets p) []). \<not> sublist a mk)))"
  unfolding check_policy_compliance_total [OF assms] list_ex_str_contains by auto

text \<open>
  The match is case-sensitive: a market text that spells \<open>bitcoin\<close> in lower case is
  rejected by the policy that approves \<open>Bitcoin\<close> and \<open>Ethereum\<close>.
\<close>

theorem check_policy_compliance_rejects_iff_witness:
  "rec_profit_margin (demo_recommendation\<lparr>rec_market := Some ''will bitcoin reach 100k?''\<rparr>) = Some 6.2
   \<and> rec_confidence (demo_recommendation\<lparr>rec_market := Some ''will bitcoin reach 100k?''\<rparr>) = Some 85.0
   \<and> rec_risk_score (demo_recommendation\<lparr>rec_market := Some ''will bitcoin reach 100k?''\<rparr>) = Some 45.0
   \<and> rec_market (demo_recommendation\<lparr>rec_market := Some ''will bitcoin reach 100k?''\<rparr>)
       = Some ''will bitcoin reach 100k?''
   \<and> get_default (approved_markets demo_user_policy) [] = [''Bitcoin'', ''Ethereum'']
   \<and> \<not> sublist ''Bitcoin'' ''will bitcoin reach 100k?''
   \<and> \<not> sublist ''Ethereum'' ''will bitcoin reach 100k?''
   \<and> check_policy_compliance
         (demo_recommendation\<lparr>rec_market := Some ''will bitcoin reach 100k?''\<rparr>)
         demo_user_policy = Inr False"
proof -
  let ?r = "demo_recommendation\<lparr>rec_market := Some ''will bitcoin reach 100k?''\<rparr>"
  have k: "rec_profit_margin ?r = Some 6.2" "rec_confidence ?r = Some 85.0"
    "rec_risk_score ?r = Some 45.0" "rec_market ?r = Some ''will bitcoin reach 100k?''"
    by (simp_all add: demo_recommendation_def)
  have none: "\<forall>a \<in> set (get_default (approved_markets demo_user_policy) []).
         \<not> sublist a ''will bitcoin reach 100k?''"
    by (simp add: demo_user_policy_def get_default_def str_contains_iff_sublist [symmetric])
  have ne: "get_default (approved_markets demo_user_policy) [] \<noteq> []"
    by (simp add: demo_user_policy_def get_default_def)
  from check_policy_compliance_rejects_iff [OF k, of demo_user_policy] none ne
  have "check_policy_compliance ?r demo_user_policy = Inr False" by blast
  moreover have "get_default (approved_markets demo_user_policy) [] = [''Bitcoin'', ''Ethereum'']"
    by (simp add: demo_user_policy_def get_default_def)
  ultimately show ?thesis using k none by simp
qed

text \<open>
  Claim C9. The filter is monotone in the minimum profit margin: if two policies differ in
  that field only, and the first one's minimum (3.0 when absent) is not above the second
  one's, then every recommendation accepted under the second is accepted under the first.
\<close>

theorem policy_filter_monotone:
  assumes "p1 = p2\<lparr>pol_min_profit_margin := v\<rparr>"
    and "get_default v 3.0 \<le> get_default (pol_min_profit_margin p2) 3.0"
    and "check_policy_compliance r p2 = Inr True"
  shows "check_policy_compliance r p1 = Inr True"
proof -
  obtain pm where pm: "rec_profit_margin r = Some pm"
    using check_True_profit_margin [OF assms(3)] by blast
  have ok2: "\<not> pm < get_default (pol_min_profit_margin p2) 3.0"
    by (rule check_True_margin_ok [OF assms(3) pm])
  then have ok1: "\<not> pm < get_default (pol_min_profit_margin p1) 3.0"
    using assms(1,2) by simp
  have "check_policy_compliance r p1 = check_policy_compliance r p2"
    by (rule check_policy_compliance_past_margin [OF pm ok1 ok2]) (simp_all add: assms(1))
  with assms(3) show ?thesis by simp
qed

theorem policy_filter_monotone_witness:
  "demo_user_policy\<lparr>pol_min_profit_margin := Some 3.5\<rparr>
     = demo_user_policy\<lparr>pol_min_profit_margin := Some 3.5\<rparr>
   \<and> get_default (Some 3.5) 3.0 \<le> get_default (pol_min_profit_margin demo_user_policy) (3.0 :: real)
   \<and> check_policy_compliance demo_recommendation demo_user_policy = Inr True
   \<and> check_policy_compliance demo_recommendation
         (demo_user_policy\<lparr>pol_min_profit_margin := Some 3.5\<rparr>) = Inr True"
proof -
  have le: "get_default (Some 3.5) 3.0 \<le> get_default (pol_min_profit_margin demo_user_policy) (3.0 :: real)"
    by (simp add: get_default_def demo_user_policy_def)
  have ok: "check_policy_compliance demo_recommendation demo_user_policy = Inr True"
    by (simp add: check_policy_compliance_def demo_recommendation_def demo_user_policy_def
        getitem_def get_default_def)
  from policy_filter_monotone [OF refl le ok] le ok show ?thesis by simp
qed

subsection \<open>Bet sizing in the execution\<close>



section \<open>Properties of the opportunity detector\<close>

lemma calculate_confidence_Inr:
  assumes "pd_confidence pd = Some cf" "pd_price pd = Some (Fin 98500)"
  shows "\<exists>c. calculate_confidence market pd pm = Inr c"
  using assms unfolding calculate_confidence_def getitem_def truediv_fl_def Let_def
  by (simp split del: if_split)

lemma implied_price_value:
  "fmul (Fin 100000) (fsub (Fin 1) (fmul (fdiv (Fin 75) (Fin 100)) (fl 0.9)))
     = Fin (8933531975679999 / 274877906944)"
  by (simp add: flsimps)

lemma profit_margin_value:
  "fmul (fdiv (fsub (Fin 98500) (Fin (8933531975679999 / 274877906944)))
                (Fin (8933531975679999 / 274877906944))) (Fin 100)
     = Fin (7145134024193577 / 35184372088832)"
  by (simp add: flsimps)

lemma analyze_market_at_claimed_input:
  assumes "mkt_asset market = Some asset" "prices asset = Some pd"
    and "pd_price pd = Some (Fin 98500)" "pd_confidence pd = Some cf"
    and "mkt_odds market = Some (Fin 75)" "mkt_target_price market = Some (Fin 100000)"
    and "mkt_question market = Some question"
  shows "\<exists>c. analyze_market market prices now =
      Some \<lparr> od_market = question, od_market_odds = Fin 75, od_oracle_price = Fin 98500,
             od_implied_price = Fin (8933531975679999 / 274877906944),
             od_profit_margin = Fin (7145134024193577 / 35184372088832),
             od_confidence = c, od_detected_at = now \<rparr>"
proof -
  obtain c where c:
    "calculate_confidence market pd (Fin (7145134024193577 / 35184372088832)) = Inr c"
    using calculate_confidence_Inr [OF assms(4,3)] by blast
  have nz: "Fin (8933531975679999 / 274877906944) \<noteq> Fin 0" by simp
  have "analyze_market market prices now =
      Some \<lparr> od_market = question, od_market_odds = Fin 75, od_oracle_price = Fin 98500,
             od_implied_price = Fin (8933531975679999 / 274877906944),
             od_profit_margin = Fin (7145134024193577 / 35184372088832),
             od_confidence = c, od_detected_at = now \<rparr>"
    unfolding analyze_market_def analyze_market_try_def getitem_def Let_def truediv_fl_def
      assms option.case sum.case implied_price_value
    using nz c by (simp only: if_False profit_margin_value sum.case option.case)
  then show ?thesis by blast
qed

text \<open>
  Claim C7 gives the implied price as 32500. The doubles give another number: the literal
  0.9 is not nine tenths, the product with 0.75 and the later steps are rounded, and the
  implied price of the mock market is \<open>8933531975679999 / 2 ^ 38\<close>, which prints as
  32499.999999999996.
\<close>

theorem implied_price_not_32500_counterexample:
  "map_option od_implied_price (analyze_market btc_mock_market btc_prices 1700000000)
     = Some (Fin (8933531975679999 / 274877906944))
   \<and> map_option od_implied_price (analyze_market btc_mock_market btc_prices 1700000000)
     \<noteq> Some (Fin 32500)
   \<and> (274877906944 :: real) = 2 ^ 38"
proof -
  have k: "mkt_asset btc_mock_market = Some ''BTC''"
    "btc_prices ''BTC'' = Some \<lparr> pd_price = Some (Fin 98500), pd_confidence = Some (Fin 50) \<rparr>"
    "pd_price \<lparr> pd_price = Some (Fin 98500), pd_confidence = Some (Fin 50) \<rparr> = Some (Fin 98500)"
    "pd_confidence \<lparr> pd_price = Some (Fin 98500), pd_confidence = Some (Fin 50) \<rparr> = Some (Fin 50)"
    "mkt_odds btc_mock_market = Some (Fin 75)"
    "mkt_target_price btc_mock_market = Some (Fin 100000)"
    "mkt_question btc_mock_market = Some ''Will Bitcoin reach $100,000 by December 31, 2024?''"
    by (simp_all add: btc_mock_market_def btc_prices_def)
  from analyze_market_at_claimed_input
         [of btc_mock_market "''BTC''" btc_prices
             "\<lparr> pd_price = Some (Fin 98500), pd_confidence = Some (Fin 50) \<rparr>" "Fin 50" _
             1700000000, OF k]
  show ?thesis by auto
qed

text \<open>
  Claim C7, as the code has it. For a market with odds 75 and target price 100000 whose
  asset is quoted at 98500, \<^verbatim>\<open>analyze_market\<close> applies the two formulas literally, in
  double arithmetic, and returns an opportunity whose implied price is the double
  32499.999999999996, less than \<open>1 / 10 ^ 11\<close> away from 32500, and whose profit margin
  is the double 203.07692307692312, which is 203.08 when rounded to two decimals.
\<close>

theorem analyze_market_literal_formula:
  assumes "mkt_asset market = Some asset" "prices asset = Some pd"
    and "pd_price pd = Some (Fin 98500)" "pd_confidence pd = Some cf"
    and "mkt_odds market = Some (Fin 75)" "mkt_target_price market = Some (Fin 100000)"
    and "mkt_question market = Some question"
  shows "\<exists>opp. analyze_market market prices now = Some opp
     \<and> od_implied_price opp =
           fmul (Fin 100000) (fsub (Fin 1) (fmul (fdiv (Fin 75) (Fin 100)) (fl 0.9)))
     \<and> od_implied_price opp = Fin (8933531975679999 / 274877906944)
     \<and> \<bar>8933531975679999 / 274877906944 - 32500\<bar> < (1 / 10 ^ 11 :: real)
     \<and> od_profit_margin opp =
           fmul (fdiv (fsub (Fin 98500) (od_implied_price opp)) (od_implied_price opp)) (Fin 100)
     \<and> od_profit_margin opp = Fin (7145134024193577 / 35184372088832)
     \<and> \<bar>7145134024193577 / 35184372088832 - 203.08\<bar> < (0.005 :: real)"
proof -
  from analyze_market_at_claimed_input
         [of market asset prices pd cf question now, OF assms] obtain c where
    "analyze_market market prices now =
      Some \<lparr> od_market = question, od_market_odds = Fin 75, od_oracle_price = Fin 98500,
             od_implied_price = Fin (8933531975679999 / 274877906944),
             od_profit_margin = Fin (7145134024193577 / 35184372088832),
             od_confidence = c, od_detected_at = now \<rparr>"
    by blast
  then show ?thesis
    by (simp add: flsimps)
qed

theorem analyze_market_literal_formula_witness:
  "mkt_asset btc_mock_market = Some ''BTC''
   \<and> btc_prices ''BTC'' = Some \<lparr> pd_price = Some (Fin 98500), pd_confidence = Some (Fin 50) \<rparr>
   \<and> mkt_odds btc_mock_market = Some (Fin 75)
   \<and> mkt_target_price btc_mock_market = Some (Fin 100000)
   \<and> (\<exists>opp. analyze_market btc_mock_market btc_prices 1700000000 = Some opp
         \<and> od_implied_price opp = Fin (8933531975679999 / 274877906944)
         \<and> od_profit_margin opp = Fin (7145134024193577 / 35184372088832))"
proof -
  have k: "mkt_asset btc_mock_market = Some ''BTC''"
    "btc_prices ''BTC'' = Some \<lparr> pd_price = Some (Fin 98500), pd_confidence = Some (Fin 50) \<rparr>"
    "pd_price \<lparr> pd_price = Some (Fin 98500), pd_confidence = Some (Fin 50) \<rparr> = Some (Fin 98500)"
    "pd_confidence \<lparr> pd_price = Some (Fin 98500), pd_confidence = Some (Fin 50) \<rparr> = Some (Fin 50)"
    "mkt_odds btc_mock_market = Some (Fin 75)"
    "mkt_target_price btc_mock_market = Some (Fin 100000)"
    "mkt_question btc_mock_market = Some ''Will Bitcoin reach $100,000 by December 31, 2024?''"
    by (simp_all add: btc_mock_market_def btc_prices_def)
  from analyze_market_literal_formula
         [of btc_mock_market "''BTC''" btc_prices
             "\<lparr> pd_price = Some (Fin 98500), pd_confidence = Some (Fin 50) \<rparr>" "Fin 50" _
             1700000000, OF k]
       k(1,2,5,6)
  show ?thesis by auto
qed

end
